theory Spec2Isabelle
  imports Main "HOL-Library.AList" "HOL-Library.Sublist" "HOL-Library.Multiset"
begin

section \<open>Texts\<close>

text \<open>
  A Python \<open>str\<close> is modelled as a \<open>string\<close> whose characters are read as code points
  below 128. Offsets and lengths therefore count characters as Python's \<open>len\<close> and
  slicing do. The character classes below are the ASCII part of Python's classes.
\<close>

definition is_digit :: "char \<Rightarrow> bool" where
  "is_digit c = (c \<in> set ''0123456789'')"

definition is_upper :: "char \<Rightarrow> bool" where
  "is_upper c = (c \<in> set ''ABCDEFGHIJKLMNOPQRSTUVWXYZ'')"

definition is_lower :: "char \<Rightarrow> bool" where
  "is_lower c = (c \<in> set ''abcdefghijklmnopqrstuvwxyz'')"

text \<open>\<open>\w\<close>: letters, digits and the underscore.\<close>

definition is_word :: "char \<Rightarrow> bool" where
  "is_word c = (is_digit c \<or> is_upper c \<or> is_lower c \<or> c = CHR ''_'')"

text \<open>\<open>\s\<close>, \<open>str.split()\<close> and \<open>str.strip()\<close>: space, tab, newline, vertical tab,
  form feed, carriage return and the separators 28 to 31.\<close>

definition is_space :: "char \<Rightarrow> bool" where
  "is_space c = (c \<in> set [CHR '' '', CHR 0x09, CHR 0x0A, CHR 0x0B, CHR 0x0C, CHR 0x0D,
                             CHR 0x1C, CHR 0x1D, CHR 0x1E, CHR 0x1F])"

definition to_lower :: "char \<Rightarrow> char" where
  "to_lower c =
     (case map_of (zip ''ABCDEFGHIJKLMNOPQRSTUVWXYZ'' ''abcdefghijklmnopqrstuvwxyz'') c of
        Some l \<Rightarrow> l | None \<Rightarrow> c)"

definition to_upper :: "char \<Rightarrow> char" where
  "to_upper c =
     (case map_of (zip ''abcdefghijklmnopqrstuvwxyz'' ''ABCDEFGHIJKLMNOPQRSTUVWXYZ'') c of
        Some u \<Rightarrow> u | None \<Rightarrow> c)"

text \<open>The same classes read off the eight bits of a character.\<close>

lemma is_digit_code [code]:
  "is_digit (Char b0 b1 b2 b3 b4 b5 b6 b7) =
     (\<not> b7 \<and> \<not> b6 \<and> b5 \<and> b4 \<and> (\<not> b3 \<or> (\<not> b2 \<and> \<not> b1)))"
  unfolding is_digit_def
  by (cases b7; cases b6; cases b5; simp; cases b4; cases b3; simp;
      cases b2; cases b1; cases b0; simp)

lemma is_upper_code [code]:
  "is_upper (Char b0 b1 b2 b3 b4 b5 b6 b7) =
     (\<not> b7 \<and> b6 \<and> \<not> b5 \<and> (b0 \<or> b1 \<or> b2 \<or> b3 \<or> b4) \<and>
      \<not> (b4 \<and> b3 \<and> (b2 \<or> (b1 \<and> b0))))"
  unfolding is_upper_def
  by (cases b7; cases b6; cases b5; simp; cases b4; cases b3; simp;
      cases b2; cases b1; cases b0; simp)

lemma is_lower_code [code]:
  "is_lower (Char b0 b1 b2 b3 b4 b5 b6 b7) =
     (\<not> b7 \<and> b6 \<and> b5 \<and> (b0 \<or> b1 \<or> b2 \<or> b3 \<or> b4) \<and>
      \<not> (b4 \<and> b3 \<and> (b2 \<or> (b1 \<and> b0))))"
  unfolding is_lower_def
  by (cases b7; cases b6; cases b5; simp; cases b4; cases b3; simp;
      cases b2; cases b1; cases b0; simp)

lemma is_space_code [code]:
  "is_space (Char b0 b1 b2 b3 b4 b5 b6 b7) =
     (\<not> b7 \<and> \<not> b6 \<and>
      ((b5 \<and> \<not> b4 \<and> \<not> b3 \<and> \<not> b2 \<and> \<not> b1 \<and> \<not> b0) \<or>
       (\<not> b5 \<and> \<not> b4 \<and> b3 \<and> ((\<not> b2 \<and> (b1 \<or> b0)) \<or> (b2 \<and> \<not> b1))) \<or>
       (\<not> b5 \<and> b4 \<and> b3 \<and> b2)))"
  unfolding is_space_def
  by (cases b7; cases b6; cases b5; simp; cases b4; cases b3; simp;
      cases b2; cases b1; cases b0; simp)

lemma to_lower_code [code]:
  "to_lower (Char b0 b1 b2 b3 b4 b5 b6 b7) =
     (if is_upper (Char b0 b1 b2 b3 b4 b5 b6 b7) then Char b0 b1 b2 b3 b4 True b6 b7
      else Char b0 b1 b2 b3 b4 b5 b6 b7)"
  unfolding to_lower_def is_upper_code
  by (cases b7; cases b6; cases b5; simp; cases b4; cases b3; simp;
      cases b2; cases b1; cases b0; simp)

lemma to_upper_code [code]:
  "to_upper (Char b0 b1 b2 b3 b4 b5 b6 b7) =
     (if is_lower (Char b0 b1 b2 b3 b4 b5 b6 b7) then Char b0 b1 b2 b3 b4 False b6 b7
      else Char b0 b1 b2 b3 b4 b5 b6 b7)"
  unfolding to_upper_def is_lower_code
  by (cases b7; cases b6; cases b5; simp; cases b4; cases b3; simp;
      cases b2; cases b1; cases b0; simp)

section \<open>Regular expressions as \<open>re\<close> matches them\<close>

text \<open>
  The patterns of \<open>PIIService.PATTERNS\<close> use literals, character sets, \<open>\d\<close>, \<open>\s\<close>,
  \<open>\b\<close>, alternation, grouping and greedy counted repetition. \<open>re\<close> is a backtracking
  matcher: it returns the first match in the order greedy repetition (more iterations
  first) and alternation (left branch first) explore.
\<close>

text \<open>The members of a set: a character, the ranges \<open>A-Z\<close>, \<open>a-z\<close> and \<open>0-9\<close>,
  \<open>\d\<close> and \<open>\s\<close>.\<close>

datatype citem = Ch char | Rng_AZ | Rng_az | Rng_09 | Digit | Space

datatype regex =
    Eps
  | Chr char
  | Cls "citem list"
  | Bnd
  | Cat regex regex
  | Alt regex regex
  | Rep regex nat "nat option"

fun citem_match :: "citem \<Rightarrow> char \<Rightarrow> bool" where
  "citem_match (Ch a) c = (c = a)"
| "citem_match Rng_AZ c = is_upper c"
| "citem_match Rng_az c = is_lower c"
| "citem_match Rng_09 c = is_digit c"
| "citem_match Digit c = is_digit c"
| "citem_match Space c = is_space c"

text \<open>\<open>re.IGNORECASE\<close>: a character matches when it or its other case does.\<close>

definition cls_match :: "citem list \<Rightarrow> char \<Rightarrow> bool" where
  "cls_match cs c = (\<exists>i \<in> set cs. citem_match i c \<or> citem_match i (to_lower c) \<or> citem_match i (to_upper c))"

text \<open>
  The matcher reads the text through a cursor: the offset, whether the character before
  the offset is a word character (false at offset 0), and the text from the offset on.
\<close>

type_synonym cursor = "nat \<times> bool \<times> string"

definition start_cursor :: "string \<Rightarrow> cursor" where
  "start_cursor t = (0, False, t)"

text \<open>One character further, when there is one and it satisfies \<open>P\<close>.\<close>

fun step_if :: "(char \<Rightarrow> bool) \<Rightarrow> cursor \<Rightarrow> cursor list" where
  "step_if P (i, w, []) = []"
| "step_if P (i, w, c # cs) = (if P c then [(Suc i, is_word c, cs)] else [])"

text \<open>\<open>\b\<close>: exactly one of the characters before and after the offset is a word
  character (the outside of the text counts as a non-word character).\<close>

fun at_boundary :: "cursor \<Rightarrow> bool" where
  "at_boundary (i, w, []) = w"
| "at_boundary (i, w, c # cs) = (w \<noteq> is_word c)"

text \<open>
  \<open>iter f k m c\<close>: the ends of a greedy repetition of a body with ends \<open>f\<close>, started at
  \<open>c\<close>, with at most \<open>k\<close> and at least \<open>m\<close> iterations still to do, in the order the
  matcher tries them: one more iteration first, stopping here last.
\<close>

fun iter :: "('a \<Rightarrow> 'a list) \<Rightarrow> nat \<Rightarrow> nat \<Rightarrow> 'a \<Rightarrow> 'a list" where
  "iter f 0 m c = (if m = 0 then [c] else [])"
| "iter f (Suc k) m c = concat (map (iter f k (m - 1)) (f c)) @ (if m = 0 then [c] else [])"

text \<open>
  \<open>ends r c\<close>: every cursor at which a match of \<open>r\<close> started at \<open>c\<close> can end, in
  backtracking order; the first is the match \<open>re\<close> reports. Literals and sets are
  compared as \<open>re.IGNORECASE\<close> does. A repetition without upper bound is cut at the number
  of characters left, which a body that consumes a character at every iteration (as every
  body of the table does) never reaches.
\<close>

primrec ends :: "regex \<Rightarrow> cursor \<Rightarrow> cursor list" where
  "ends Eps = (\<lambda>c. [c])"
| "ends (Chr a) = step_if (\<lambda>x. to_lower x = to_lower a)"
| "ends (Cls cs) = step_if (cls_match cs)"
| "ends Bnd = (\<lambda>c. if at_boundary c then [c] else [])"
| "ends (Cat r s) = (\<lambda>c. concat (map (ends s) (ends r c)))"
| "ends (Alt r s) = (\<lambda>c. ends r c @ ends s c)"
| "ends (Rep r m n) =
     (\<lambda>c. iter (ends r) (case n of Some k \<Rightarrow> k | None \<Rightarrow> length (snd (snd c))) m c)"

text \<open>A match moves the cursor forward along the text.\<close>

definition advances :: "cursor \<Rightarrow> cursor \<Rightarrow> bool" where
  "advances c d =
     (fst d + length (snd (snd d)) = fst c + length (snd (snd c)) \<and>
      length (snd (snd d)) \<le> length (snd (snd c)))"

lemma step_if_advances: "d \<in> set (step_if P c) \<Longrightarrow> advances c d"
  by (cases "(P, c)" rule: step_if.cases) (auto simp: advances_def split: if_splits)

lemma iter_advances:
  assumes "\<And>a b. b \<in> set (f a) \<Longrightarrow> advances a b"
  shows "d \<in> set (iter f k m c) \<Longrightarrow> advances c d"
proof (induction k arbitrary: m c)
  case 0
  then show ?case by (auto simp: advances_def split: if_splits)
next
  case (Suc k)
  from Suc.prems consider
      (more) a where "a \<in> set (f c)" "d \<in> set (iter f k (m - 1) a)"
    | (stop) "d = c"
    by (auto split: if_splits)
  then show ?case
  proof cases
    case more
    from assms [OF more(1)] Suc.IH [OF more(2)] show ?thesis
      by (auto simp: advances_def)
  next
    case stop
    then show ?thesis by (simp add: advances_def)
  qed
qed

lemma ends_advances_all: "\<forall>c d. d \<in> set (ends r c) \<longrightarrow> advances c d"
proof (induction r)
  case (Cat r s)
  show ?case
  proof (intro allI impI)
    fix c d assume "d \<in> set (ends (Cat r s) c)"
    then obtain a where "a \<in> set (ends r c)" "d \<in> set (ends s a)" by auto
    with Cat.IH have "advances c a" "advances a d" by blast+
    then show "advances c d" by (simp add: advances_def)
  qed
next
  case (Alt r s)
  then show ?case by auto
next
  case (Rep r m n)
  show ?case
  proof (intro allI impI)
    fix c d assume d: "d \<in> set (ends (Rep r m n) c)"
    have "\<And>a b. b \<in> set (ends r a) \<Longrightarrow> advances a b" using Rep.IH by blast
    moreover from d obtain k where "d \<in> set (iter (ends r) k m c)" by auto
    ultimately show "advances c d" by (rule iter_advances)
  qed
next
  case (Chr a)
  then show ?case by (simp add: step_if_advances)
next
  case (Cls cs)
  then show ?case by (simp add: step_if_advances)
qed (simp_all add: advances_def split: if_splits)

lemma ends_advances: "d \<in> set (ends r c) \<Longrightarrow> advances c d"
  using ends_advances_all by blast

text \<open>\<open>re.finditer\<close>: the leftmost match from the cursor on, reported as its start and end
  offsets; then the search goes on where the match ended (one character further after an
  empty match), to the end of the text.\<close>

function finditer :: "regex \<Rightarrow> cursor \<Rightarrow> (nat \<times> nat) list" where
  "finditer r (i, w, cs) =
     (case ends r (i, w, cs) of
        [] \<Rightarrow> (case cs of [] \<Rightarrow> [] | x # xs \<Rightarrow> finditer r (Suc i, is_word x, xs))
      | (e, w', cs') # _ \<Rightarrow>
          (i, e) # (if i < e then finditer r (e, w', cs')
                    else (case cs of [] \<Rightarrow> [] | x # xs \<Rightarrow> finditer r (Suc i, is_word x, xs))))"
  by pat_completeness auto
termination
proof (relation "measure (\<lambda>(r, c). length (snd (snd c)))")
  fix r :: regex and i e :: nat and w w' :: bool and cs cs' :: string
    and x21 :: cursor and x22 :: "cursor list" and y :: "bool \<times> string"
  assume "ends r (i, w, cs) = x21 # x22" "(e, y) = x21" "(w', cs') = y" "i < e"
  then have "advances (i, w, cs) (e, w', cs')"
    using ends_advances [of "(e, w', cs')" r "(i, w, cs)"] by simp
  with \<open>i < e\<close> show "((r, e, w', cs'), r, i, w, cs) \<in> measure (\<lambda>(r, c). length (snd (snd c)))"
    by (simp add: advances_def)
qed auto

section \<open>The PII service\<close>

subsection \<open>The pattern table\<close>

text \<open>A sequence of expressions, and a literal string.\<close>

fun cat :: "regex list \<Rightarrow> regex" where
  "cat [] = Eps"
| "cat [r] = r"
| "cat (r # rs) = Cat r (cat rs)"

definition lit :: "string \<Rightarrow> regex" where
  "lit s = cat (map Chr s)"

abbreviation digits :: "nat \<Rightarrow> nat option \<Rightarrow> regex" where
  "digits m n \<equiv> Rep (Cls [Digit]) m n"

abbreviation opt :: "regex \<Rightarrow> regex" where
  "opt r \<equiv> Rep r 0 (Some 1)"

text \<open>\<^verbatim>\<open>\b[A-Za-z0-9._%+-]+@[A-Za-z0-9.-]+\.[A-Z|a-z]{2,}\b\<close>\<close>

definition pat_email :: regex where
  "pat_email = cat [Bnd,
     Rep (Cls [Rng_AZ, Rng_az, Rng_09,
               Ch CHR ''.'', Ch CHR ''_'', Ch CHR ''%'', Ch CHR ''+'', Ch CHR ''-'']) 1 None,
     Chr CHR ''@'',
     Rep (Cls [Rng_AZ, Rng_az, Rng_09,
               Ch CHR ''.'', Ch CHR ''-'']) 1 None,
     Chr CHR ''.'',
     Rep (Cls [Rng_AZ, Ch CHR ''|'', Rng_az]) 2 None,
     Bnd]"

text \<open>\<^verbatim>\<open>\b(?:\+49|0049|0)[\s\-]?(?:\d{2,4})[\s\-]?(?:\d{3,})[\s\-]?(?:\d{2,})\b\<close>\<close>

definition pat_phone_de :: regex where
  "pat_phone_de = cat [Bnd,
     Alt (lit ''+49'') (Alt (lit ''0049'') (lit ''0'')),
     opt (Cls [Space, Ch CHR ''-'']),
     digits 2 (Some 4),
     opt (Cls [Space, Ch CHR ''-'']),
     digits 3 None,
     opt (Cls [Space, Ch CHR ''-'']),
     digits 2 None,
     Bnd]"

text \<open>\<^verbatim>\<open>\b[A-Z]{2}\d{2}[\s]?(?:\d{4}[\s]?){4,7}\d{0,2}\b\<close>\<close>

definition pat_iban :: regex where
  "pat_iban = cat [Bnd,
     Rep (Cls [Rng_AZ]) 2 (Some 2),
     digits 2 (Some 2),
     opt (Cls [Space]),
     Rep (Cat (digits 4 (Some 4)) (opt (Cls [Space]))) 4 (Some 7),
     digits 0 (Some 2),
     Bnd]"

text \<open>\<^verbatim>\<open>\b[A-Z]{4}[A-Z]{2}[A-Z0-9]{2}(?:[A-Z0-9]{3})?\b\<close>\<close>

definition pat_bic :: regex where
  "pat_bic = cat [Bnd,
     Rep (Cls [Rng_AZ]) 4 (Some 4),
     Rep (Cls [Rng_AZ]) 2 (Some 2),
     Rep (Cls [Rng_AZ, Rng_09]) 2 (Some 2),
     opt (Rep (Cls [Rng_AZ, Rng_09]) 3 (Some 3)),
     Bnd]"

text \<open>\<^verbatim>\<open>\b\d{5}\b\<close>\<close>

definition pat_plz_de :: regex where
  "pat_plz_de = cat [Bnd, digits 5 (Some 5), Bnd]"

text \<open>\<^verbatim>\<open>\b(?:\d{1,2}[./]\d{1,2}[./]\d{2,4})\b\<close>\<close>

definition pat_date_de :: regex where
  "pat_date_de = cat [Bnd,
     digits 1 (Some 2), Cls [Ch CHR ''.'', Ch CHR ''/''],
     digits 1 (Some 2), Cls [Ch CHR ''.'', Ch CHR ''/''],
     digits 2 (Some 4),
     Bnd]"

text \<open>\<^verbatim>\<open>\b\d{2}[\s]?\d{3}[\s]?\d{3}[\s]?\d{3}\b\<close>\<close>

definition pat_steuer_id :: regex where
  "pat_steuer_id = cat [Bnd,
     digits 2 (Some 2), opt (Cls [Space]),
     digits 3 (Some 3), opt (Cls [Space]),
     digits 3 (Some 3), opt (Cls [Space]),
     digits 3 (Some 3),
     Bnd]"

text \<open>\<^verbatim>\<open>\b\d{2}[\s]?\d{6}[\s]?[A-Z][\s]?\d{3}\b\<close>\<close>

definition pat_sozialversicherung :: regex where
  "pat_sozialversicherung = cat [Bnd,
     digits 2 (Some 2), opt (Cls [Space]),
     digits 6 (Some 6), opt (Cls [Space]),
     Cls [Rng_AZ], opt (Cls [Space]),
     digits 3 (Some 3),
     Bnd]"

text \<open>\<^verbatim>\<open>\b(?:\d{4}[\s\-]?){3}\d{4}\b\<close>\<close>

definition pat_kreditkarte :: regex where
  "pat_kreditkarte = cat [Bnd,
     Rep (Cat (digits 4 (Some 4)) (opt (Cls [Space, Ch CHR ''-'']))) 3 (Some 3),
     digits 4 (Some 4),
     Bnd]"

text \<open>\<^verbatim>\<open>\b(?:\d{1,3}\.){3}\d{1,3}\b\<close>\<close>

definition pat_ip_address :: regex where
  "pat_ip_address = cat [Bnd,
     Rep (Cat (digits 1 (Some 3)) (Chr CHR ''.'')) 3 (Some 3),
     digits 1 (Some 3),
     Bnd]"

text \<open>The two dictionaries, in insertion order.\<close>

definition PATTERNS :: "(string \<times> regex) list" where
  "PATTERNS =
    [(''email'', pat_email),
     (''phone_de'', pat_phone_de),
     (''iban'', pat_iban),
     (''bic'', pat_bic),
     (''plz_de'', pat_plz_de),
     (''date_de'', pat_date_de),
     (''steuer_id'', pat_steuer_id),
     (''sozialversicherung'', pat_sozialversicherung),
     (''kreditkarte'', pat_kreditkarte),
     (''ip_address'', pat_ip_address)]"

definition MASK_PATTERNS :: "(string \<times> string) list" where
  "MASK_PATTERNS =
    [(''email'', ''[EMAIL]''),
     (''phone_de'', ''[TELEFON]''),
     (''iban'', ''[IBAN]''),
     (''bic'', ''[BIC]''),
     (''plz_de'', ''[PLZ]''),
     (''date_de'', ''[DATUM]''),
     (''steuer_id'', ''[STEUER-ID]''),
     (''sozialversicherung'', ''[SOZVERS-NR]''),
     (''kreditkarte'', ''[KREDITKARTE]''),
     (''ip_address'', ''[IP-ADRESSE]''),
     (''PERSON'', ''[PERSON]''),
     (''ORG'', ''[ORGANISATION]''),
     (''LOC'', ''[ORT]''),
     (''GPE'', ''[ORT]'')]"

text \<open>\<open>MASK_PATTERNS.get(key, "[REDACTED]")\<close>\<close>

definition mask_for :: "string \<Rightarrow> string" where
  "mask_for key = (case map_of MASK_PATTERNS key of Some m \<Rightarrow> m | None \<Rightarrow> ''[REDACTED]'')"

subsection \<open>Matches and results\<close>

text \<open>The fields \<open>type\<close>, \<open>value\<close>, \<open>start\<close>, \<open>end\<close> and \<open>masked_value\<close> of a match; the
  offsets are those of \<open>re\<close> or of the recogniser, half-open and never negative.\<close>

record PIIMatch =
  m_type :: string
  m_value :: string
  m_start :: nat
  m_end :: nat
  masked_value :: string

record PIIResult =
  original_text :: string
  masked_text :: string
  pii_detected :: bool
  matches :: "PIIMatch list"

text \<open>An entity of the recogniser: \<open>label_\<close>, \<open>text\<close>, \<open>start_char\<close>, \<open>end_char\<close>.\<close>

record entity =
  label :: string
  ent_text :: string
  start_char :: nat
  end_char :: nat

text \<open>
  The service object: the \<open>enabled\<close> flag and the loaded spaCy pipeline, \<open>None\<close> when no
  model is loaded. The pipeline is an external capability, so it is a parameter: a function
  from a text to the entities of \<open>doc.ents\<close>.
\<close>

record PIIService =
  enabled :: bool
  nlp :: "(string \<Rightarrow> entity list) option"

text \<open>
  \<open>__init__\<close>: a model is loaded only when spaCy is importable and the service is enabled;
  \<open>load\<close> is the outcome of \<open>spacy.load\<close> for the configured model, \<open>load_sm\<close> that of the
  fallback model (\<open>None\<close> for \<open>OSError\<close>).
\<close>

definition PIIService_init ::
  "bool \<Rightarrow> (string \<Rightarrow> entity list) option \<Rightarrow> (string \<Rightarrow> entity list) option \<Rightarrow> bool \<Rightarrow> PIIService" where
  "PIIService_init spacy_available load load_sm en =
     \<lparr>enabled = en,
      nlp = (if spacy_available \<and> en
             then (case load of Some f \<Rightarrow> Some f | None \<Rightarrow> load_sm)
             else None)\<rparr>"

text \<open>The enabled service with no recogniser loaded.\<close>

abbreviation regex_only :: PIIService where
  "regex_only \<equiv> \<lparr>enabled = True, nlp = None\<rparr>"

text \<open>Step 1 of \<open>detect_pii\<close>: every match of every pattern, pattern by pattern.\<close>

definition regex_matches :: "string \<Rightarrow> PIIMatch list" where
  "regex_matches text =
     concat (map (\<lambda>(pii_type, pattern).
        map (\<lambda>(s, e). \<lparr>m_type = pii_type, m_value = take (e - s) (drop s text),
                        m_start = s, m_end = e, masked_value = mask_for pii_type\<rparr>)
            (finditer pattern (start_cursor text))) PATTERNS)"

text \<open>Step 2: the entities with one of the five labels, when a pipeline is loaded.\<close>

definition ner_matches :: "PIIService \<Rightarrow> string \<Rightarrow> PIIMatch list" where
  "ner_matches svc text =
     (case nlp svc of
        None \<Rightarrow> []
      | Some f \<Rightarrow>
          map (\<lambda>ent. \<lparr>m_type = label ent, m_value = ent_text ent,
                       m_start = start_char ent, m_end = end_char ent,
                       masked_value = mask_for (label ent)\<rparr>)
              (filter (\<lambda>ent. label ent \<in> set [''PER'', ''PERSON'', ''ORG'', ''LOC'', ''GPE''])
                      (f text)))"

text \<open>\<open>sorted(matches, key=lambda m: m.start, reverse=True)\<close>: a stable sort, descending;
  matches with the same start keep their order.\<close>

definition sorted_desc :: "PIIMatch list \<Rightarrow> PIIMatch list" where
  "sorted_desc ms = rev (sort_key m_start (rev ms))"

text \<open>\<open>span_key = (match.start, match.end)\<close>\<close>

definition span :: "PIIMatch \<Rightarrow> nat \<times> nat" where
  "span m = (m_start m, m_end m)"

text \<open>\<open>masked_text[:match.start] + match.masked_value + masked_text[match.end:]\<close>\<close>

definition replace_span :: "PIIMatch \<Rightarrow> string \<Rightarrow> string" where
  "replace_span m masked = take (m_start m) masked @ masked_value m @ drop (m_end m) masked"

text \<open>One round of the masking loop: the working text and the spans replaced so far.\<close>

definition mask_step :: "string \<times> (nat \<times> nat) list \<Rightarrow> PIIMatch \<Rightarrow> string \<times> (nat \<times> nat) list" where
  "mask_step st m =
     (let (masked, replaced_spans) = st; span_key = span m
      in if span_key \<notin> set replaced_spans
         then (replace_span m masked, span_key # replaced_spans)
         else (masked, replaced_spans))"

definition apply_masks :: "string \<Rightarrow> PIIMatch list \<Rightarrow> string \<times> (nat \<times> nat) list" where
  "apply_masks text ms = foldl mask_step (text, []) (sorted_desc ms)"

definition detect_pii :: "PIIService \<Rightarrow> string \<Rightarrow> bool \<Rightarrow> PIIResult" where
  "detect_pii svc text mask_flag =
     (if \<not> enabled svc
      then \<lparr>original_text = text, masked_text = text, pii_detected = False, matches = []\<rparr>
      else
        let ms = regex_matches text @ ner_matches svc text;
            masked = (if mask_flag \<and> ms \<noteq> [] then fst (apply_masks text ms) else text)
        in \<lparr>original_text = text, masked_text = masked,
            pii_detected = (0 < length ms), matches = ms\<rparr>)"

definition detect_in_chunks :: "PIIService \<Rightarrow> string list \<Rightarrow> bool \<Rightarrow> PIIResult list" where
  "detect_in_chunks svc chunks mask_flag = map (\<lambda>chunk. detect_pii svc chunk mask_flag) chunks"

text \<open>\<open>get_pii_stats(results)["type_distribution"]\<close>: the number of matches of each type,
  as a dictionary in insertion order.\<close>

definition count_type :: "(string \<times> nat) list \<Rightarrow> PIIMatch \<Rightarrow> (string \<times> nat) list" where
  "count_type type_counts m =
     AList.update (m_type m)
       ((case map_of type_counts (m_type m) of Some n \<Rightarrow> n | None \<Rightarrow> 0) + 1) type_counts"

definition type_distribution :: "PIIResult list \<Rightarrow> (string \<times> nat) list" where
  "type_distribution results = foldl (\<lambda>tc r. foldl count_type tc (matches r)) [] results"

section \<open>The chunker\<close>

subsection \<open>String operations of Python\<close>

text \<open>\<open>s.split()\<close>: the maximal runs of characters that are not whitespace.\<close>

fun words_from :: "string \<Rightarrow> string \<Rightarrow> string list" where
  "words_from cur [] = (if cur = [] then [] else [cur])"
| "words_from cur (c # cs) =
     (if is_space c then (if cur = [] then words_from [] cs else cur # words_from [] cs)
      else words_from (cur @ [c]) cs)"

definition split_ws :: "string \<Rightarrow> string list" where
  "split_ws s = words_from [] s"

text \<open>\<open>" ".join(xs)\<close>\<close>

fun join_sp :: "string list \<Rightarrow> string" where
  "join_sp [] = []"
| "join_sp [x] = x"
| "join_sp (x # y # ys) = x @ '' '' @ join_sp (y # ys)"

text \<open>\<open>s.replace(old, new)\<close> for a non-empty \<open>old\<close>: the occurrences from left to right,
  none overlapping the one before.\<close>

function replace_str :: "string \<Rightarrow> string \<Rightarrow> string \<Rightarrow> string" where
  "replace_str old new [] = []"
| "replace_str old new (c # cs) =
     (if old \<noteq> [] \<and> prefix old (c # cs)
      then new @ replace_str old new (drop (length old) (c # cs))
      else c # replace_str old new cs)"
  by pat_completeness auto
termination
  by (relation "measure (\<lambda>(old, new, s). length s)") (auto simp: Suc_le_eq)

text \<open>\<open>s.split(sep)\<close> for a one-character separator: at least one piece, empty ones kept.\<close>

fun split_on :: "char \<Rightarrow> string \<Rightarrow> string list" where
  "split_on sep [] = [[]]"
| "split_on sep (c # cs) =
     (if c = sep then [] # split_on sep cs
      else (case split_on sep cs of [] \<Rightarrow> [[c]] | w # ws \<Rightarrow> (c # w) # ws))"

text \<open>\<open>s.strip()\<close>\<close>

definition strip :: "string \<Rightarrow> string" where
  "strip s = rev (dropWhile is_space (rev (dropWhile is_space s)))"

subsection \<open>\<open>DocumentService._chunk_text\<close>\<close>

text \<open>The inner loop over \<open>reversed(words)\<close>: \<open>overlap_words\<close> and \<open>overlap_len\<close>.\<close>

fun take_overlap :: "int \<Rightarrow> string list \<Rightarrow> string list \<Rightarrow> int \<Rightarrow> string list \<times> int" where
  "take_overlap chunk_overlap [] overlap_words overlap_len = (overlap_words, overlap_len)"
| "take_overlap chunk_overlap (word # ws) overlap_words overlap_len =
     (if overlap_len + int (length word) < chunk_overlap
      then take_overlap chunk_overlap ws (word # overlap_words) (overlap_len + int (length word) + 1)
      else (overlap_words, overlap_len))"

text \<open>What the next chunk starts with after \<open>overlap_text\<close> was closed: the new
  \<open>current_chunk\<close> and \<open>current_length\<close>.\<close>

definition overlap_seed :: "int \<Rightarrow> string \<Rightarrow> string list \<times> int" where
  "overlap_seed chunk_overlap overlap_text =
     (if int (length overlap_text) > chunk_overlap
      then take_overlap chunk_overlap (rev (split_ws overlap_text)) [] 0
      else ([], 0))"

text \<open>One round of the loop over the sentences; the state is \<open>chunks\<close>, \<open>current_chunk\<close>
  and \<open>current_length\<close>.\<close>

type_synonym chunker_state = "string list \<times> string list \<times> int"

definition close_chunk :: "int \<Rightarrow> int \<Rightarrow> int \<Rightarrow> chunker_state \<Rightarrow> chunker_state" where
  "close_chunk chunk_size chunk_overlap sentence_length st =
     (let (chunks, current_chunk, current_length) = st
      in if current_length + sentence_length > chunk_size \<and> current_chunk \<noteq> []
         then (let (ws, l) = overlap_seed chunk_overlap (join_sp current_chunk)
               in (chunks @ [join_sp current_chunk], ws, l))
         else st)"

definition chunk_step :: "int \<Rightarrow> int \<Rightarrow> chunker_state \<Rightarrow> string \<Rightarrow> chunker_state" where
  "chunk_step chunk_size chunk_overlap st sentence0 =
     (let sentence = strip sentence0
      in if sentence = [] then st
         else (let sentence_length = int (length sentence);
                   (chunks, current_chunk, current_length) =
                      close_chunk chunk_size chunk_overlap sentence_length st
               in (chunks, current_chunk @ [sentence], current_length + sentence_length + 1)))"

definition sentences_of :: "string \<Rightarrow> string list" where
  "sentences_of text =
     split_on CHR 0x0A
       (replace_str ''! '' [CHR ''!'', CHR 0x0A]
         (replace_str ''? '' [CHR ''?'', CHR 0x0A]
           (replace_str ''. '' [CHR ''.'', CHR 0x0A] (join_sp (split_ws text)))))"

definition chunk_loop :: "int \<Rightarrow> int \<Rightarrow> chunker_state \<Rightarrow> string list \<Rightarrow> string list" where
  "chunk_loop chunk_size chunk_overlap st sentences =
     (let (chunks, current_chunk, current_length) =
            foldl (chunk_step chunk_size chunk_overlap) st sentences
      in if current_chunk \<noteq> [] then chunks @ [join_sp current_chunk] else chunks)"

definition chunk_text :: "int \<Rightarrow> int \<Rightarrow> string \<Rightarrow> string list" where
  "chunk_text chunk_size chunk_overlap text =
     chunk_loop chunk_size chunk_overlap ([], [], 0) (sentences_of text)"

subsection \<open>What the loop maintains\<close>




section \<open>The vector store\<close>

text \<open>
  The ChromaDB collection is an external store: it is modelled as the list of its records,
  each with its id, document text, embedding and metadata dictionary. Whether a call to it
  succeeds is an input of the operation that makes the call.
\<close>

record chunk_meta =
  cm_document_id :: string
  cm_filename :: string
  cm_chunk_index :: nat
  cm_total_chunks :: nat
  cm_pii_masked :: bool
  cm_uploaded_at :: string

record 'v chunk_entry =
  ce_id :: string
  ce_document :: string
  ce_embedding :: 'v
  ce_metadata :: chunk_meta

text \<open>\<open>add_documents\<close>: the four lists are stored record by record; an exception of
  \<open>collection.add\<close> is logged and raised again (\<open>None\<close>), the collection unchanged.\<close>

definition add_documents ::
  "bool \<Rightarrow> 'v chunk_entry list \<Rightarrow> string list \<Rightarrow> 'v list \<Rightarrow> chunk_meta list \<Rightarrow> string list
     \<Rightarrow> (nat \<times> 'v chunk_entry list) option" where
  "add_documents add_ok collection documents embeddings metadatas ids =
     (if add_ok
      then Some (length documents,
                 collection @
                 map (\<lambda>(i, d, e, m). \<lparr>ce_id = i, ce_document = d, ce_embedding = e, ce_metadata = m\<rparr>)
                     (zip ids (zip documents (zip embeddings metadatas))))
      else None)"

text \<open>\<open>delete_by_document_id\<close>: the ids of the records whose metadata names the document
  are looked up and deleted in one call; any exception is logged and turned into \<open>False\<close>.\<close>

record delete_env =
  get_ok :: bool
  delete_ok :: bool
  delete_save_ok :: bool

definition delete_by_document_id ::
  "delete_env \<Rightarrow> 'v chunk_entry list \<Rightarrow> string \<Rightarrow> bool \<times> 'v chunk_entry list" where
  "delete_by_document_id env collection document_id =
     (if \<not> get_ok env then (False, collection)
      else
        let ids = map ce_id (filter (\<lambda>e. cm_document_id (ce_metadata e) = document_id) collection)
        in if ids \<noteq> []
           then (if delete_ok env
                 then (True, filter (\<lambda>e. ce_id e \<notin> set ids) collection)
                 else (False, collection))
           else (False, collection))"

section \<open>The embedding service\<close>

text \<open>
  \<open>generate_embedding\<close> is the external embedding call: a function from the text to the
  vector, \<open>None\<close> when it raises. The functions below return the texts passed to it, in
  call order, next to the result.
\<close>

fun embed_each :: "(string \<Rightarrow> 'v option) \<Rightarrow> string list \<Rightarrow> string list \<times> 'v list option" where
  "embed_each generate_embedding [] = ([], Some [])"
| "embed_each generate_embedding (t # ts) =
     (case generate_embedding t of
        None \<Rightarrow> ([t], None)
      | Some v \<Rightarrow>
          (let (calls, r) = embed_each generate_embedding ts
           in (t # calls, map_option ((#) v) r)))"

text \<open>\<open>texts[i:i + batch_size] for i in range(0, len(texts), batch_size)\<close>\<close>

function batches :: "nat \<Rightarrow> 'a list \<Rightarrow> 'a list list" where
  "batches batch_size xs =
     (if xs = [] \<or> batch_size = 0 then []
      else take batch_size xs # batches batch_size (drop batch_size xs))"
  by pat_completeness auto
termination
  by (relation "measure (\<lambda>(n, xs). length xs)") auto

fun embed_batches :: "(string \<Rightarrow> 'v option) \<Rightarrow> string list list \<Rightarrow> string list \<times> 'v list option" where
  "embed_batches generate_embedding [] = ([], Some [])"
| "embed_batches generate_embedding (batch # bs) =
     (case embed_each generate_embedding batch of
        (calls, None) \<Rightarrow> (calls, None)
      | (calls, Some vs) \<Rightarrow>
          (let (calls', r) = embed_batches generate_embedding bs
           in (calls @ calls', map_option ((@) vs) r)))"

definition generate_embeddings_batch ::
  "(string \<Rightarrow> 'v option) \<Rightarrow> string list \<Rightarrow> nat \<Rightarrow> string list \<times> 'v list option" where
  "generate_embeddings_batch generate_embedding texts batch_size =
     embed_batches generate_embedding (batches batch_size texts)"

section \<open>The document service\<close>

record doc_meta =
  meta_id :: string
  meta_filename :: string
  meta_file_type :: string
  meta_uploaded_at :: string
  meta_chunk_count :: nat
  meta_character_count :: nat
  meta_pii_detected :: bool
  meta_pii_summary :: "(string \<times> nat) list option"
  meta_user_id :: string

text \<open>
  The configuration of a \<open>DocumentService\<close>, and its state together with that of the
  stores it writes: the dictionary \<open>documents_metadata\<close> (in insertion order), the
  content of \<open>documents.json\<close> and the collection of the vector store.
\<close>

record DocumentService =
  pii_service :: PIIService
  chunk_size :: int
  chunk_overlap :: int

record 'v store =
  documents_metadata :: "(string \<times> doc_meta) list"
  metadata_file :: "(string \<times> doc_meta) list"
  collection :: "'v chunk_entry list"

definition empty_store :: "'v store" where
  "empty_store = \<lparr>documents_metadata = [], metadata_file = [], collection = []\<rparr>"

text \<open>\<open>_save_metadata\<close>: an exception while writing is logged and ignored.\<close>

definition save_metadata :: "bool \<Rightarrow> 'v store \<Rightarrow> 'v store" where
  "save_metadata save_ok st = (if save_ok then st\<lparr>metadata_file := documents_metadata st\<rparr> else st)"

text \<open>
  What one call of \<open>process_document\<close> takes from outside: the fresh \<open>uuid4\<close>, the
  outcome of \<open>_extract_text\<close> (\<open>None\<close> for an unsupported type or a failed extraction),
  the clock (one reading stands for the readings of \<open>utcnow\<close> the call makes), the
  embedding call, and whether \<open>collection.add\<close>, the write of \<open>documents.json\<close> and the
  audit log succeed.
\<close>

record 'v ingest_env =
  new_id :: string
  extracted :: "string option"
  now :: string
  embed_call :: "string \<Rightarrow> 'v option"
  add_ok :: bool
  save_ok :: bool
  audit_ok :: bool

datatype pipeline_error = CouldNotExtract | EmbeddingFailed | IndexAddFailed | AuditFailed

record ingest_result =
  res_id :: string
  res_filename :: string
  res_chunk_count :: nat
  res_pii_detected :: bool
  res_pii_summary :: "(string \<times> nat) list option"

text \<open>The decimal digits of a number, as \<open>str\<close> and f-strings print it.\<close>

fun str_nat :: "nat \<Rightarrow> string" where
  "str_nat n = (if n < 10 then [''0123456789'' ! n] else str_nat (n div 10) @ [''0123456789'' ! (n mod 10)])"

declare str_nat.simps [simp del]

text \<open>\<^verbatim>\<open>f"{document_id}_chunk_{i}"\<close>\<close>

definition chunk_id :: "string \<Rightarrow> nat \<Rightarrow> string" where
  "chunk_id document_id i = document_id @ ''_chunk_'' @ str_nat i"

text \<open>
  \<open>process_document\<close> returns its result or the exception it raises, the stores after
  the call, and the texts it passed to the embedding call. The summary string of the
  source, \<open>"Gefunden: "\<close> and the JSON text of the type distribution, is kept as the
  distribution itself.
\<close>

definition process_document ::
  "DocumentService \<Rightarrow> 'v store \<Rightarrow> 'v ingest_env \<Rightarrow> string \<Rightarrow> string \<Rightarrow> string
     \<Rightarrow> (pipeline_error + ingest_result) \<times> 'v store \<times> string list" where
  "process_document svc st env filename file_type user_id =
     (let document_id = new_id env
      in case extracted env of
           None \<Rightarrow> (Inl CouldNotExtract, st, [])
         | Some text \<Rightarrow>
             if text = [] then (Inl CouldNotExtract, st, [])
             else
               let chunks = chunk_text (chunk_size svc) (chunk_overlap svc) text;
                   pii_results = map (\<lambda>chunk. detect_pii (pii_service svc) chunk True) chunks;
                   masked_chunks = map masked_text pii_results;
                   pii = list_ex pii_detected pii_results;
                   pii_summary =
                     (if pii
                      then Some (type_distribution (detect_in_chunks (pii_service svc) chunks True))
                      else None);
                   (calls, embedded) = generate_embeddings_batch (embed_call env) masked_chunks 10
               in case embedded of
                    None \<Rightarrow> (Inl EmbeddingFailed, st, calls)
                  | Some embeddings \<Rightarrow>
                      let chunk_ids = map (chunk_id document_id) [0..<length masked_chunks];
                          metadatas =
                            map (\<lambda>i. \<lparr>cm_document_id = document_id, cm_filename = filename,
                                       cm_chunk_index = i, cm_total_chunks = length masked_chunks,
                                       cm_pii_masked = pii, cm_uploaded_at = now env\<rparr>)
                                [0..<length masked_chunks]
                      in case add_documents (add_ok env) (collection st)
                                masked_chunks embeddings metadatas chunk_ids of
                           None \<Rightarrow> (Inl IndexAddFailed, st, calls)
                         | Some (n, collection') \<Rightarrow>
                             let meta = \<lparr>meta_id = document_id, meta_filename = filename,
                                         meta_file_type = file_type, meta_uploaded_at = now env,
                                         meta_chunk_count = length chunks,
                                         meta_character_count = length text,
                                         meta_pii_detected = pii, meta_pii_summary = pii_summary,
                                         meta_user_id = user_id\<rparr>;
                                 st' = save_metadata (save_ok env)
                                         (st\<lparr>collection := collection',
                                             documents_metadata :=
                                               AList.update document_id meta (documents_metadata st)\<rparr>)
                             in if audit_ok env
                                then (Inr \<lparr>res_id = document_id, res_filename = filename,
                                           res_chunk_count = length chunks,
                                           res_pii_detected = pii,
                                           res_pii_summary = pii_summary\<rparr>, st', calls)
                                else (Inl AuditFailed, st', calls))"


text \<open>\<open>get_document\<close>\<close>

definition get_document :: "'v store \<Rightarrow> string \<Rightarrow> doc_meta option" where
  "get_document st document_id = map_of (documents_metadata st) document_id"

text \<open>\<open>delete_document\<close>: the returned flag and the stores after the call.\<close>

definition delete_document :: "'v store \<Rightarrow> delete_env \<Rightarrow> string \<Rightarrow> bool \<times> 'v store" where
  "delete_document st env document_id =
     (if document_id \<notin> set (map fst (documents_metadata st)) then (False, st)
      else
        let (deleted, collection') = delete_by_document_id env (collection st) document_id;
            st' = save_metadata (delete_save_ok env)
                    (st\<lparr>collection := collection',
                        documents_metadata := AList.delete document_id (documents_metadata st)\<rparr>)
        in (True, st'))"








section \<open>Example inputs\<close>

text \<open>
  A document service as \<open>main.py\<close> constructs it when no spaCy model is installed
  (\<open>PIIService()\<close>, chunk size 500, overlap 50), and an ingestion in which every
  external call succeeds; the embedding of a text stands for the text itself.
\<close>

definition example_service :: DocumentService where
  "example_service = \<lparr>pii_service = regex_only, chunk_size = 500, chunk_overlap = 50\<rparr>"

definition example_env :: "string \<Rightarrow> string \<Rightarrow> string ingest_env" where
  "example_env document_id text =
     \<lparr>new_id = document_id, extracted = Some text, now = ''2024-01-01T00:00:00'',
      embed_call = Some, add_ok = True, save_ok = True, audit_ok = True\<rparr>"

text \<open>A deletion in which the lookup in the index succeeds and \<open>collection.delete\<close>
  raises, and one in which every call succeeds.\<close>

definition index_delete_fails :: delete_env where
  "index_delete_fails = \<lparr>get_ok = True, delete_ok = False, delete_save_ok = True\<rparr>"


section \<open>Properties\<close>

subsection \<open>A disabled PII service\<close>

text \<open>
  C10. A service with \<open>enabled = False\<close> detects nothing: for every text and both values
  of the mask flag, \<open>detect_pii\<close> returns the input as \<open>masked_text\<close>, \<open>pii_detected\<close>
  false and no matches. A service constructed with \<open>enabled=False\<close> is such a service
  and has no recogniser loaded.
\<close>

theorem detect_pii_disabled:
  "\<not> enabled svc \<Longrightarrow>
     detect_pii svc text mask_flag =
       \<lparr>original_text = text, masked_text = text, pii_detected = False, matches = []\<rparr>"
  by (simp add: detect_pii_def)

theorem detect_pii_disabled_witness:
  "\<not> enabled (PIIService_init True None None False) \<and>
   nlp (PIIService_init True None None False) = None \<and>
   detect_pii (PIIService_init True None None False) ''max@firma.de'' True =
     \<lparr>original_text = ''max@firma.de'', masked_text = ''max@firma.de'',
      pii_detected = False, matches = []\<rparr>"
  using detect_pii_disabled [of "PIIService_init True None None False" "''max@firma.de''" True]
  by (simp add: PIIService_init_def)

subsection \<open>The example of the specification\<close>




subsection \<open>Masking a masked text again\<close>













subsection \<open>The masking walk\<close>









text \<open>The spans that \<open>finditer\<close> reports lie in the text, so the matches of the pattern
  table are candidates as the next theorem takes them.\<close>

declare finditer.simps [simp del]

lemma finditer_spans:
  "(s, e) \<in> set (finditer r c) \<Longrightarrow>
     fst c \<le> s \<and> s \<le> e \<and> e \<le> fst c + length (snd (snd c))"
proof (induction r c arbitrary: s e rule: finditer.induct)
  case (1 r i w cs)
  from "1.prems" have u: "(s, e) \<in> set
     (case ends r (i, w, cs) of
        [] \<Rightarrow> (case cs of [] \<Rightarrow> [] | x # xs \<Rightarrow> finditer r (Suc i, is_word x, xs))
      | (e, w', cs') # _ \<Rightarrow>
          (i, e) # (if i < e then finditer r (e, w', cs')
                    else (case cs of [] \<Rightarrow> [] | x # xs \<Rightarrow> finditer r (Suc i, is_word x, xs))))"
    by (simp add: finditer.simps [of r i w cs])
  show ?case
  proof (cases "ends r (i, w, cs)")
    case Nil
    show ?thesis
    proof (cases cs)
      case Nil': Nil
      with Nil u show ?thesis by simp
    next
      case (Cons x xs)
      with Nil u have "(s, e) \<in> set (finditer r (Suc i, is_word x, xs))" by simp
      from "1.IH"(1) [OF Nil Cons this] Cons show ?thesis by simp
    qed
  next
    case (Cons d ds)
    obtain e' w' cs' where d: "d = (e', w', cs')" by (cases d)
    have adv: "advances (i, w, cs) (e', w', cs')"
      using ends_advances [of d r "(i, w, cs)"] Cons d by simp
    then have ee: "e' + length cs' = i + length cs" "length cs' \<le> length cs"
      by (simp_all add: advances_def)
    then have ie: "i \<le> e'" by simp
    from u Cons d consider
        (here) "(s, e) = (i, e')"
      | (after) "i < e'" "(s, e) \<in> set (finditer r (e', w', cs'))"
      | (skip) x xs where "\<not> i < e'" "cs = x # xs" "(s, e) \<in> set (finditer r (Suc i, is_word x, xs))"
      by (auto split: if_splits list.splits)
    then show ?thesis
    proof cases
      case here
      with ie ee show ?thesis by simp
    next
      case after
      from "1.IH"(2) [OF Cons d [symmetric] refl after(1) after(2)] ee after(1)
      show ?thesis by simp
    next
      case skip
      from "1.IH"(3) [OF Cons d [symmetric] refl skip(1) skip(2) skip(3)] skip(2)
      show ?thesis by simp
    qed
  qed
qed

lemma regex_matches_spans:
  "\<forall>m \<in> set (regex_matches t). m_start m \<le> m_end m \<and> m_end m \<le> length t"
proof
  fix m assume "m \<in> set (regex_matches t)"
  then obtain r where "(m_start m, m_end m) \<in> set (finditer r (start_cursor t))"
    by (auto simp: regex_matches_def)
  from finditer_spans [OF this] show "m_start m \<le> m_end m \<and> m_end m \<le> length t"
    by (simp add: start_cursor_def)
qed







subsection \<open>The overlap of consecutive chunks\<close>

















subsection \<open>What the embedding call receives\<close>

declare batches.simps [simp del]


















subsection \<open>The two stores\<close>


























lemma ingest_hallo:
  "process_document example_service empty_store (example_env ''d1'' ''Hallo Welt.'')
     ''a.txt'' ''.txt'' ''system'' =
   (Inr \<lparr>res_id = ''d1'', res_filename = ''a.txt'', res_chunk_count = 1,
          res_pii_detected = False, res_pii_summary = None\<rparr>,
    \<lparr>documents_metadata =
       [(''d1'', \<lparr>meta_id = ''d1'', meta_filename = ''a.txt'', meta_file_type = ''.txt'',
                  meta_uploaded_at = ''2024-01-01T00:00:00'', meta_chunk_count = 1,
                  meta_character_count = 11, meta_pii_detected = False,
                  meta_pii_summary = None, meta_user_id = ''system''\<rparr>)],
     metadata_file =
       [(''d1'', \<lparr>meta_id = ''d1'', meta_filename = ''a.txt'', meta_file_type = ''.txt'',
                  meta_uploaded_at = ''2024-01-01T00:00:00'', meta_chunk_count = 1,
                  meta_character_count = 11, meta_pii_detected = False,
                  meta_pii_summary = None, meta_user_id = ''system''\<rparr>)],
     collection =
       [\<lparr>ce_id = ''d1_chunk_0'', ce_document = ''Hallo Welt.'', ce_embedding = ''Hallo Welt.'',
         ce_metadata = \<lparr>cm_document_id = ''d1'', cm_filename = ''a.txt'', cm_chunk_index = 0,
                        cm_total_chunks = 1, cm_pii_masked = False,
                        cm_uploaded_at = ''2024-01-01T00:00:00''\<rparr>\<rparr>]\<rparr>,
    [''Hallo Welt.''])"
  by code_simp




text \<open>
  C2 does not hold of the code: when \<open>collection.delete\<close> raises,
  \<open>delete_by_document_id\<close> returns \<open>False\<close>, but \<open>delete_document\<close> drops that result,
  removes the metadata record and returns \<open>True\<close>, and the chunk stays in the index.
\<close>

theorem erase_ignores_index_failure:
  "delete_document
     (fst (snd (process_document example_service empty_store (example_env ''d1'' ''Hallo Welt.'')
                  ''a.txt'' ''.txt'' ''system'')))
     index_delete_fails ''d1'' =
   (True,
    \<lparr>documents_metadata = [], metadata_file = [],
      collection =
        [\<lparr>ce_id = ''d1_chunk_0'', ce_document = ''Hallo Welt.'', ce_embedding = ''Hallo Welt.'',
          ce_metadata = \<lparr>cm_document_id = ''d1'', cm_filename = ''a.txt'', cm_chunk_index = 0,
                         cm_total_chunks = 1, cm_pii_masked = False,
                         cm_uploaded_at = ''2024-01-01T00:00:00''\<rparr>\<rparr>]\<rparr>)"
  by (simp add: ingest_hallo delete_document_def delete_by_document_id_def index_delete_fails_def
        save_metadata_def AList.delete_eq)


end
